theory Spec2Isabelle
  imports Complex_Main "HOL-Library.Char_ord" "HOL-Library.List_Lexorder" "HOL-Library.AList"
begin

section \<open>Python values used by app.py\<close>

text \<open>
  Strings are lists of code points below 256; Python compares characters by code point
  and strings lexicographically, which is the order of \<open>Char_ord\<close> and
  \<open>List_Lexorder\<close>. A dict is an association list in insertion order:
  \<open>d[k] = v\<close> is \<open>AList.update k v d\<close> (an existing key keeps its place, a new
  key goes to the end) and \<open>d.get(k)\<close> is \<open>map_of d k\<close>. Python floats are modelled
  by exact rational arithmetic: \<open>0.8\<close> is \<open>4/5\<close>, and no rounding is applied.
\<close>

datatype error = ValueError | KeyError | ZeroDivisionError | IndexError

subsection \<open>\<open>int(s)\<close> and \<open>str(n)\<close>\<close>

text \<open>
  \<open>int(s)\<close> on a string: surrounding whitespace is stripped, one sign is allowed, then
  decimal digits follow, with single underscores allowed between digits. Anything else
  raises ValueError, here \<open>None\<close>. Leading zeros are accepted. The interpreter's optional
  limit on the number of digits is not modelled.
\<close>

definition is_space :: "char \<Rightarrow> bool" where
  "is_space c = (of_char c \<in> set [9, 10, 11, 12, 13, 32, 133, 160 :: nat])"

definition is_digit :: "char \<Rightarrow> bool" where
  "is_digit c = (48 \<le> (of_char c :: nat) \<and> (of_char c :: nat) \<le> 57)"

definition digit_val :: "char \<Rightarrow> nat" where
  "digit_val c = of_char c - 48"

fun parse_digits :: "nat \<Rightarrow> string \<Rightarrow> nat option" where
  "parse_digits acc [] = Some acc"
| "parse_digits acc [c] = (if is_digit c then Some (acc * 10 + digit_val c) else None)"
| "parse_digits acc (c # d # ds) =
     (if c = CHR ''_'' then
        (if is_digit d then parse_digits (acc * 10 + digit_val d) ds else None)
      else if is_digit c then parse_digits (acc * 10 + digit_val c) (d # ds)
      else None)"

definition strip :: "string \<Rightarrow> string" where
  "strip s = rev (dropWhile is_space (rev (dropWhile is_space s)))"

definition parse_unsigned :: "string \<Rightarrow> nat option" where
  "parse_unsigned s =
     (case s of [] \<Rightarrow> None
      | d # ds \<Rightarrow> if is_digit d then parse_digits (digit_val d) ds else None)"

definition py_int :: "string \<Rightarrow> int option" where
  "py_int s =
     (case strip s of [] \<Rightarrow> None
      | c # cs \<Rightarrow>
          if c = CHR ''-'' then map_option (\<lambda>n. - int n) (parse_unsigned cs)
          else if c = CHR ''+'' then map_option int (parse_unsigned cs)
          else map_option int (parse_unsigned (c # cs)))"

definition digit_char :: "nat \<Rightarrow> char" where
  "digit_char d = char_of (48 + d)"

function str_nat :: "nat \<Rightarrow> string" where
  "str_nat n = (if n < 10 then [digit_char n] else str_nat (n div 10) @ [digit_char (n mod 10)])"
  by pat_completeness auto
termination
  by (relation "measure id") auto

definition py_str :: "int \<Rightarrow> string" where
  "py_str k = (if k < 0 then CHR ''-'' # str_nat (nat (- k)) else str_nat (nat k))"

subsection \<open>Float helpers\<close>

text \<open>\<open>x % 1.0\<close>: the result has the sign of the divisor.\<close>

definition fmod1 :: "rat \<Rightarrow> rat" where
  "fmod1 x = x - of_int \<lfloor>x\<rfloor>"

text \<open>\<open>int(x)\<close> on a float truncates towards zero.\<close>

definition py_trunc :: "rat \<Rightarrow> int" where
  "py_trunc x = (if 0 \<le> x then \<lfloor>x\<rfloor> else \<lceil>x\<rceil>)"

text \<open>The standard library's \<open>colorsys.hsv_to_rgb\<close>.\<close>

definition hsv_to_rgb :: "rat \<Rightarrow> rat \<Rightarrow> rat \<Rightarrow> rat \<times> rat \<times> rat" where
  "hsv_to_rgb h s v =
     (if s = 0 then (v, v, v)
      else
        let i = py_trunc (h * 6);
            f = h * 6 - of_int i;
            p = v * (1 - s);
            q = v * (1 - s * f);
            t = v * (1 - s * (1 - f));
            i = i mod 6
        in if i = 0 then (v, t, p)
           else if i = 1 then (q, v, p)
           else if i = 2 then (p, v, t)
           else if i = 3 then (p, q, v)
           else if i = 4 then (t, p, v)
           else (v, p, q))"

text \<open>The format specification \<open>:02x\<close>: lowercase hexadecimal, sign first, zero-padded
  to width 2.\<close>

definition hex_char :: "nat \<Rightarrow> char" where
  "hex_char d = ''0123456789abcdef'' ! d"

function hex_nat :: "nat \<Rightarrow> string" where
  "hex_nat n = (if n < 16 then [hex_char n] else hex_nat (n div 16) @ [hex_char (n mod 16)])"
  by pat_completeness auto
termination
  by (relation "measure id") auto

definition fmt_02x :: "int \<Rightarrow> string" where
  "fmt_02x k =
     (if k < 0 then CHR ''-'' # hex_nat (nat (- k))
      else let ds = hex_nat (nat k) in replicate (2 - length ds) CHR ''0'' @ ds)"

section \<open>The colour assigner: \<open>generate_isco_grouped_colors\<close>\<close>

text \<open>Lines 27-37: numeric order when every code parses, else string order for all.\<close>

definition all_ints :: "string list \<Rightarrow> int list option" where
  "all_ints cats = (if list_all (\<lambda>c. py_int c \<noteq> None) cats
                    then Some (map (\<lambda>c. the (py_int c)) cats) else None)"

definition sorted_isco :: "string list \<Rightarrow> string list" where
  "sorted_isco isco_categories =
     (case all_ints isco_categories of
        Some isco_integers \<Rightarrow> map py_str (sort isco_integers)
      | None \<Rightarrow> sort isco_categories)"

text \<open>Lines 41-47: the set of first characters, sorted.\<close>

definition major_groups :: "string list \<Rightarrow> char list" where
  "major_groups codes = sort (remdups (map hd (filter (\<lambda>code. length code \<ge> 1) codes)))"

text \<open>Lines 50-54: \<open>major_group_hue[group] = i * 0.8 / n_major_groups\<close>. The body runs
  only for \<open>i < n_major_groups\<close>, so the divisor is not zero there.\<close>

definition major_group_hue :: "nat \<Rightarrow> char list \<Rightarrow> (char \<times> rat) list" where
  "major_group_hue n_major_groups mgs =
     fold (\<lambda>(i, group) d. AList.update group (of_nat i * (4/5) / of_nat n_major_groups) d)
          (enumerate 0 mgs) []"

text \<open>Lines 66-75: the \<open>try\<close> catches ValueError only.\<close>

definition minor_variation :: "nat \<Rightarrow> string \<Rightarrow> error + rat" where
  "minor_variation n_major_groups code =
     (if length code \<ge> 2 then
        (case py_int [code ! 1] of
           None \<Rightarrow> Inr 0
         | Some minor_digit \<Rightarrow>
             if n_major_groups = 0 then Inl ZeroDivisionError
             else Inr (of_int minor_digit * ((4/5) / of_nat n_major_groups) / 12))
      else Inr 0)"

text \<open>Lines 60-78: the hue of one code of length at least 1.\<close>

definition code_hue :: "(char \<times> rat) list \<Rightarrow> nat \<Rightarrow> string \<Rightarrow> error + rat" where
  "code_hue mgh n_major_groups code =
     (case map_of mgh (hd code) of
        None \<Rightarrow> Inl KeyError
      | Some base_hue \<Rightarrow>
          (case minor_variation n_major_groups code of
             Inl e \<Rightarrow> Inl e
           | Inr mv \<Rightarrow> Inr (fmod1 (base_hue + mv))))"

text \<open>Lines 82-87: saturation and value from the parity of the major group, then the
  hex string.\<close>

definition hex_color :: "rat \<Rightarrow> bool \<Rightarrow> string" where
  "hex_color hue is_odd_group =
     (let saturation = (if is_odd_group then 17/20 else 3/4);
          val = (if is_odd_group then 9/10 else 19/20);
          (r, g, b) = hsv_to_rgb hue saturation val
      in CHR ''#'' # fmt_02x (py_trunc (r * 255)) @ fmt_02x (py_trunc (g * 255))
                   @ fmt_02x (py_trunc (b * 255)))"

definition code_color :: "(char \<times> rat) list \<Rightarrow> nat \<Rightarrow> string \<Rightarrow> error + string" where
  "code_color mgh n_major_groups code =
     (case code_hue mgh n_major_groups code of
        Inl e \<Rightarrow> Inl e
      | Inr hue \<Rightarrow>
          (case py_int [hd code] of
             None \<Rightarrow> Inl ValueError
           | Some m \<Rightarrow> Inr (hex_color hue (m mod 2 = 1))))"

text \<open>Lines 57-88: the loop over the sorted codes; the first exception ends it.\<close>

fun colors_loop ::
  "(char \<times> rat) list \<Rightarrow> nat \<Rightarrow> string list \<Rightarrow> (string \<times> string) list
   \<Rightarrow> error + (string \<times> string) list" where
  "colors_loop mgh n [] colors = Inr colors"
| "colors_loop mgh n (code # rest) colors =
     (if length code \<ge> 1 then
        (case code_color mgh n code of
           Inl e \<Rightarrow> Inl e
         | Inr hex \<Rightarrow> colors_loop mgh n rest (AList.update code hex colors))
      else colors_loop mgh n rest colors)"

definition generate_isco_grouped_colors :: "string list \<Rightarrow> error + (string \<times> string) list" where
  "generate_isco_grouped_colors isco_categories =
     (let codes = sorted_isco isco_categories;
          mgs = major_groups codes;
          n_major_groups = length mgs;
          mgh = major_group_hue n_major_groups mgs
      in colors_loop mgh n_major_groups codes [])"

section \<open>The misclassified-jobs store\<close>

text \<open>
  An entry of the store is a dict from field names to values. The callbacks get the
  module-level \<open>last_clicked_data\<close> and the clock as arguments; the second component of
  a result is the text of the feedback element (the empty string when the callback
  returns \<open>""\<close>).
\<close>

datatype pyval = Str string | Num rat

type_synonym entry = "(string \<times> pyval) list"

definition add_to_misclassified ::
  "int \<Rightarrow> entry \<Rightarrow> string \<Rightarrow> entry list \<Rightarrow> entry list \<times> string" where
  "add_to_misclassified n_clicks last_clicked_data now current_data =
     (if n_clicks = 0 \<or> length last_clicked_data = 0 then (current_data, [])
      else
        let misclassified_entry =
              AList.update ''id'' (Str (py_str (int (length current_data) + 1)))
                (AList.update ''timestamp'' (Str now) last_clicked_data)
        in if list_ex (\<lambda>entry.
                 map_of entry ''title_en'' = map_of misclassified_entry ''title_en'' \<and>
                 map_of entry ''isco2d'' = map_of misclassified_entry ''isco2d'') current_data
           then (current_data, ''This job is already in the misclassified list!'')
           else (current_data @ [misclassified_entry], ''Added to misclassified jobs list!''))"

definition clear_misclassified :: "int \<Rightarrow> entry list \<times> string" where
  "clear_misclassified n_clicks = ([], ''Misclassified jobs list cleared!'')"

text \<open>The states of the store: it starts as \<open>[]\<close> and only the two callbacks write it.\<close>

inductive reachable :: "entry list \<Rightarrow> bool" where
  initial: "reachable []"
| add: "reachable s \<Longrightarrow> reachable (fst (add_to_misclassified n_clicks lcd now s))"
| clear: "reachable s \<Longrightarrow> reachable (fst (clear_misclassified n_clicks))"

section \<open>The click handler: \<open>display_click\<close>\<close>

record row =
  isco2d :: string
  title_en :: string
  title :: string
  x :: rat
  y :: rat

record point =
  pt_x :: rat
  pt_y :: rat
  customdata :: "string list"

record panel =
  panel_isco2d :: string
  panel_group_name :: string
  panel_color :: string
  panel_title :: string
  panel_title_en :: string
  panel_x :: rat
  panel_y :: rat

datatype click_info = Hint string | Details panel

text \<open>Rounding to 3 decimals, ties to even, on the exact value.\<close>

definition round_half_even :: "rat \<Rightarrow> int" where
  "round_half_even q =
     (let f = \<lfloor>q\<rfloor>; d = q - of_int f
      in if d < 1/2 then f else if 1/2 < d then f + 1 else if even f then f else f + 1)"

definition round3 :: "rat \<Rightarrow> rat" where
  "round3 q = of_int (round_half_even (q * 1000)) / 1000"

definition isco_submajor_groups :: "(string \<times> string) list" where
  "isco_submajor_groups =
   [(''11'', ''Chief executives, senior officials and legislators''),
    (''12'', ''Administrative and commercial managers''),
    (''13'', ''Production and specialized services managers''),
    (''14'', ''Hospitality, retail and other services managers''),
    (''21'', ''Science and engineering professionals''),
    (''22'', ''Health professionals''),
    (''23'', ''Teaching professionals''),
    (''24'', ''Business and administration professionals''),
    (''25'', ''Information and communications technology professionals''),
    (''26'', ''Legal, social and cultural professionals''),
    (''31'', ''Science and engineering associate professionals''),
    (''32'', ''Health associate professionals''),
    (''33'', ''Business and administration associate professionals''),
    (''34'', ''Legal, social, cultural and related associate professionals''),
    (''35'', ''Information and communications technicians''),
    (''41'', ''General and keyboard clerks''),
    (''42'', ''Customer services clerks''),
    (''43'', ''Numerical and material recording clerks''),
    (''44'', ''Other clerical support workers''),
    (''51'', ''Personal service workers''),
    (''52'', ''Sales workers''),
    (''53'', ''Personal care workers''),
    (''54'', ''Protective services workers''),
    (''61'', ''Market-oriented skilled agricultural workers''),
    (''62'', ''Market-oriented skilled forestry, fishery and hunting workers''),
    (''63'', ''Subsistence farmers, fishers, hunters and gatherers''),
    (''71'', ''Building and related trades workers, excluding electricians''),
    (''72'', ''Metal, machinery and related trades workers''),
    (''73'', ''Handicraft and printing workers''),
    (''74'', ''Electrical and electronic trades workers''),
    (''75'', ''Food processing, wood working, garment and other craft and related trades workers''),
    (''81'', ''Stationary plant and machine operators''),
    (''82'', ''Assemblers''),
    (''83'', ''Drivers and mobile plant operators''),
    (''91'', ''Cleaners and helpers''),
    (''92'', ''Agricultural, forestry and fishery labourers''),
    (''93'', ''Labourers in mining, construction, manufacturing and transport''),
    (''94'', ''Food preparation assistants''),
    (''95'', ''Street and related sales and service workers''),
    (''96'', ''Refuse workers and other elementary workers''),
    (''101'', ''Commissioned armed forces officers''),
    (''102'', ''Non-commissioned armed forces officers''),
    (''103'', ''Armed forces occupations, other ranks'')]"

definition isco_major_groups :: "(string \<times> string) list" where
  "isco_major_groups =
   [(''1'', ''Managers''),
    (''2'', ''Professionals''),
    (''3'', ''Technicians and Associate Professionals''),
    (''4'', ''Clerical Support Workers''),
    (''5'', ''Service and Sales Workers''),
    (''6'', ''Skilled Agricultural, Forestry and Fishery Workers''),
    (''7'', ''Craft and Related Trades Workers''),
    (''8'', ''Plant and Machine Operators and Assemblers''),
    (''9'', ''Elementary Occupations''),
    (''10'', ''Armed Forces Occupations'')]"

text \<open>Lines 453-456: the rows that agree with the clicked point.\<close>

definition matching_rows :: "row list \<Rightarrow> string \<Rightarrow> string \<Rightarrow> rat \<Rightarrow> rat \<Rightarrow> row list" where
  "matching_rows df isco title_e x_coord y_coord =
     filter (\<lambda>r. isco2d r = isco \<and> title_en r = title_e \<and>
                 round3 (x r) = round3 x_coord \<and> round3 (y r) = round3 y_coord) df"

text \<open>Lines 533-553: the group name, with the fallback to the major group.\<close>

definition group_name :: "string \<Rightarrow> string" where
  "group_name submajor_group =
     (let submajor_group_name =
            (case map_of isco_submajor_groups submajor_group of Some s \<Rightarrow> s | None \<Rightarrow> [])
      in if submajor_group_name = [] \<and> length submajor_group \<ge> 1 then
           let major_group =
                 (if submajor_group ! 0 \<noteq> CHR ''1'' then [submajor_group ! 0]
                  else if length submajor_group \<ge> 2 \<and> submajor_group ! 1 = CHR ''0''
                       then ''10'' else ''1'')
           in ''(In '' @ (case map_of isco_major_groups major_group of
                            Some s \<Rightarrow> s | None \<Rightarrow> ''Unknown Group'') @ '')''
         else submajor_group_name)"

text \<open>
  \<open>clickData\<close> is \<open>None\<close> when nothing was clicked and \<open>Some points\<close> for the
  event's list of points. The result is the content of the details element and the new
  \<open>last_clicked_data\<close>; the panel holds the values the element shows.
\<close>

definition display_click ::
  "row list \<Rightarrow> (string \<times> string) list \<Rightarrow> point list option \<Rightarrow> entry
   \<Rightarrow> error + (click_info \<times> entry)" where
  "display_click df color_map clickData last_clicked_data =
     (case clickData of
        None \<Rightarrow> Inr (Hint ''Click on a dot to see details here.'', last_clicked_data)
      | Some points \<Rightarrow>
          (case points of
             [] \<Rightarrow> Inl IndexError
           | pt # _ \<Rightarrow>
               if length (customdata pt) < 2 then Inl IndexError
               else
                 let isco = customdata pt ! 1;
                     title_e = customdata pt ! 0;
                     x_coord = pt_x pt;
                     y_coord = pt_y pt;
                     rows = matching_rows df isco title_e x_coord y_coord;
                     lcd = [(''isco2d'', Str isco), (''title_en'', Str title_e),
                            (''x'', Num x_coord), (''y'', Num y_coord)];
                     r = (if length rows > 0 then hd rows
                          else \<lparr>isco2d = isco, title_en = title_e,
                                title = ''Original title not available'',
                                x = x_coord, y = y_coord\<rparr>);
                     lcd = AList.update ''title'' (Str (title r)) lcd;
                     cat_color = (case map_of color_map isco of
                                    Some c \<Rightarrow> c | None \<Rightarrow> ''#333333'');
                     lcd = AList.update ''submajor_group_name'' (Str (group_name isco)) lcd
                 in Inr (Details \<lparr>panel_isco2d = isco,
                                   panel_group_name = group_name isco,
                                   panel_color = cat_color,
                                   panel_title = title r,
                                   panel_title_en = title_en r,
                                   panel_x = x_coord,
                                   panel_y = y_coord\<rparr>, lcd)))"

section \<open>Properties of the colour assigner\<close>

subsection \<open>Dicts and the loops\<close>

lemma py_int_single: "py_int [c] = (if is_digit c then Some (int (digit_val c)) else None)"
  by (auto simp: py_int_def strip_def parse_unsigned_def is_space_def is_digit_def)

lemma update_fresh: "k \<notin> fst ` set al \<Longrightarrow> AList.update k v al = al @ [(k, v)]"
  by (induction al) auto

lemma update_member:
  "(a, b) \<in> set (AList.update k v al) \<Longrightarrow> (a, b) \<in> set al \<or> (a = k \<and> b = v)"
  by (induction al) (auto split: if_splits)

lemma fold_update_distinct:
  "distinct (map fst kvs) \<Longrightarrow> fst ` set kvs \<inter> fst ` set acc = {} \<Longrightarrow>
   fold (\<lambda>(k, v) d. AList.update k v d) kvs acc = acc @ kvs"
proof (induction kvs arbitrary: acc)
  case Nil
  then show ?case by simp
next
  case (Cons kv kvs)
  obtain k v where kv: "kv = (k, v)" by (cases kv)
  have fresh: "k \<notin> fst ` set acc" using Cons.prems(2) kv by auto
  have "fold (\<lambda>(k, v) d. AList.update k v d) (kv # kvs) acc
        = fold (\<lambda>(k, v) d. AList.update k v d) kvs (acc @ [(k, v)])"
    using fresh by (simp add: kv update_fresh)
  also have "\<dots> = (acc @ [(k, v)]) @ kvs"
    using Cons.prems kv by (intro Cons.IH) auto
  finally show ?case by (simp add: kv)
qed

lemma major_group_hue_distinct:
  assumes "distinct mgs"
  shows "major_group_hue n mgs
         = map (\<lambda>(i, g). (g, of_nat i * (4/5) / of_nat n)) (enumerate 0 mgs)"
proof -
  let ?h = "\<lambda>(i::nat, g::char). (g, of_nat i * (4/5) / (of_nat n :: rat))"
  have "major_group_hue n mgs
        = fold (\<lambda>(k, v) d. AList.update k v d) (map ?h (enumerate 0 mgs)) []"
    unfolding major_group_hue_def by (simp add: fold_map comp_def case_prod_unfold)
  moreover have "map fst (map ?h (enumerate 0 mgs)) = mgs"
    by (simp add: comp_def case_prod_unfold)
  ultimately show ?thesis using assms by (simp add: fold_update_distinct)
qed

lemma map_of_major_group_hue:
  assumes "distinct mgs" "i < length mgs"
  shows "map_of (major_group_hue n mgs) (mgs ! i) = Some (of_nat i * (4/5) / of_nat n)"
proof -
  let ?h = "\<lambda>(i::nat, g::char). (g, of_nat i * (4/5) / (of_nat n :: rat))"
  have eq: "major_group_hue n mgs = map ?h (enumerate 0 mgs)"
    using assms(1) by (rule major_group_hue_distinct)
  have d: "distinct (map fst (map ?h (enumerate 0 mgs)))"
    using assms(1) by (simp add: comp_def case_prod_unfold)
  have "(i, mgs ! i) \<in> set (enumerate 0 mgs)"
    using assms(2) by (simp add: in_set_enumerate_eq)
  then have "(mgs ! i, of_nat i * (4/5) / of_nat n) \<in> set (map ?h (enumerate 0 mgs))"
    by force
  with map_of_eq_Some_iff[OF d] show ?thesis unfolding eq by blast
qed

lemma major_groups_sorted: "sorted (major_groups codes)"
  by (simp add: major_groups_def)

lemma major_groups_distinct: "distinct (major_groups codes)"
  by (simp add: major_groups_def)

lemma major_groups_set: "set (major_groups codes) = hd ` {c \<in> set codes. c \<noteq> []}"
  by (auto simp: major_groups_def Suc_le_eq)

lemma major_groups_cong:
  "set codes = set codes' \<Longrightarrow> major_groups codes = major_groups codes'"
  by (intro sorted_distinct_set_unique)
     (simp_all add: major_groups_sorted major_groups_distinct major_groups_set)

lemma colors_loop_keys:
  "colors_loop mgh n xs acc = Inr m \<Longrightarrow> fst ` set m = fst ` set acc \<union> {c \<in> set xs. c \<noteq> []}"
proof (induction xs arbitrary: acc)
  case Nil
  then show ?case by simp
next
  case (Cons c xs)
  show ?case
  proof (cases "c = []")
    case True
    with Cons show ?thesis by auto
  next
    case False
    with Cons.prems obtain hex where h: "code_color mgh n c = Inr hex"
      and l: "colors_loop mgh n xs (AList.update c hex acc) = Inr m"
      by (auto simp: Suc_le_eq split: sum.splits)
    from Cons.IH[OF l] False show ?thesis by (auto simp: dom_update)
  qed
qed

lemma colors_loop_values:
  "colors_loop mgh n xs acc = Inr m \<Longrightarrow> (k, v) \<in> set m \<Longrightarrow>
   (k, v) \<in> set acc \<or> (\<exists>c \<in> set xs. c \<noteq> [] \<and> code_color mgh n c = Inr v)"
proof (induction xs arbitrary: acc)
  case Nil
  then show ?case by simp
next
  case (Cons c xs)
  show ?case
  proof (cases "c = []")
    case True
    with Cons show ?thesis by auto
  next
    case False
    with Cons.prems obtain hex where h: "code_color mgh n c = Inr hex"
      and l: "colors_loop mgh n xs (AList.update c hex acc) = Inr m"
      by (auto simp: Suc_le_eq split: sum.splits)
    from Cons.IH[OF l Cons.prems(2)] h False show ?thesis
      by (auto dest: update_member)
  qed
qed

lemma colors_loop_ok:
  "(\<forall>c\<in>set xs. c \<noteq> [] \<longrightarrow> (\<exists>h. code_color mgh n c = Inr h)) \<Longrightarrow>
   \<exists>m. colors_loop mgh n xs acc = Inr m"
  by (induction xs arbitrary: acc) (auto split: sum.splits)

lemma colors_loop_err:
  "colors_loop mgh n xs acc = Inl e \<Longrightarrow> \<exists>c\<in>set xs. c \<noteq> [] \<and> code_color mgh n c = Inl e"
  by (induction xs arbitrary: acc) (auto split: sum.splits if_splits)

lemma colors_loop_remdups_adj:
  "colors_loop mgh n (map f (remdups_adj zs)) acc = colors_loop mgh n (map f zs) acc"
proof (induction zs arbitrary: acc rule: remdups_adj.induct)
  case 1
  show ?case by simp
next
  case (2 x)
  show ?case by simp
next
  case (3 x y xs)
  then show ?case
    by (cases "x = y") (simp_all add: update_last split: sum.splits)
qed

lemma distinct_remdups_adj_sorted: "sorted xs \<Longrightarrow> distinct (remdups_adj xs)"
  by (induction xs rule: remdups_adj.induct) auto

lemma remdups_adj_sort_cong:
  fixes A B :: "'a::linorder list"
  assumes "set A = set B"
  shows "remdups_adj (sort A) = remdups_adj (sort B)"
  by (intro sorted_distinct_set_unique)
     (simp_all add: sorted_remdups_adj distinct_remdups_adj_sorted assms)

lemma generate_cong:
  fixes A B :: "'a::linorder list"
  assumes xs: "sorted_isco xs = map f (sort A)" and ys: "sorted_isco ys = map f (sort B)"
    and AB: "set A = set B"
  shows "generate_isco_grouped_colors xs = generate_isco_grouped_colors ys"
proof -
  have s: "set (sorted_isco xs) = set (sorted_isco ys)" using AB by (simp add: xs ys)
  have mg: "major_groups (sorted_isco xs) = major_groups (sorted_isco ys)"
    using s by (rule major_groups_cong)
  have "colors_loop mgh n (map f (sort A)) [] = colors_loop mgh n (map f (sort B)) []" for mgh n
    using colors_loop_remdups_adj[of mgh n f "sort A" "[]"]
      colors_loop_remdups_adj[of mgh n f "sort B" "[]"] remdups_adj_sort_cong[OF AB]
    by simp
  then show ?thesis
    unfolding generate_isco_grouped_colors_def Let_def mg by (simp add: xs ys)
qed

lemma all_ints_cong: "set xs = set ys \<Longrightarrow> (all_ints xs = None) = (all_ints ys = None)"
  by (simp add: all_ints_def list_all_iff)

subsection \<open>Determinism\<close>

text \<open>
  Claim C5. Two collections with the same set of codes, whatever their iteration order
  and multiplicities, give the same result: the same dict with the same insertion order,
  or the same exception.
\<close>

theorem assigner_deterministic:
  assumes "set xs = set ys"
  shows "generate_isco_grouped_colors xs = generate_isco_grouped_colors ys"
proof (cases "all_ints xs")
  case None
  then have "all_ints ys = None" using all_ints_cong[OF assms] by simp
  with None have "sorted_isco xs = map id (sort xs)" "sorted_isco ys = map id (sort ys)"
    by (simp_all add: sorted_isco_def)
  then show ?thesis using assms by (rule generate_cong)
next
  case (Some ints)
  then obtain ints' where s': "all_ints ys = Some ints'"
    using all_ints_cong[OF assms] by (cases "all_ints ys") auto
  have i: "ints = map (\<lambda>c. the (py_int c)) xs" using Some by (auto simp: all_ints_def split: if_splits)
  have i': "ints' = map (\<lambda>c. the (py_int c)) ys" using s' by (auto simp: all_ints_def split: if_splits)
  have "sorted_isco xs = map py_str (sort ints)" "sorted_isco ys = map py_str (sort ints')"
    using Some s' by (simp_all add: sorted_isco_def)
  moreover have "set ints = set ints'" using assms by (simp add: i i')
  ultimately show ?thesis by (rule generate_cong)
qed

theorem assigner_deterministic_witness:
  "set [''21'', ''11'', ''12''] = set [''11'', ''12'', ''21'', ''11''] \<and>
   generate_isco_grouped_colors [''21'', ''11'', ''12'']
   = generate_isco_grouped_colors [''11'', ''12'', ''21'', ''11'']"
  using assigner_deterministic[of "[''21'', ''11'', ''12'']" "[''11'', ''12'', ''21'', ''11'']"]
  by auto

end
